theory Spec2Isabelle
  imports Complex_Main
begin

section \<open>Numbers\<close>

text \<open>
  The program is TypeScript; every coordinate, angle, scale and noise sample is a
  JavaScript number, an IEEE double. The classifier, the frames of the animation loop and
  the textures are modelled on exact reals: what is proved of them (comparisons, which
  target and factor a frame uses, the plane \<open>y = 0\<close>, the colour of a texel) does not
  depend on rounding. The smoothing step itself is modelled in double arithmetic, in the
  sections on doubles below, since there rounding decides.
\<close>

section \<open>HandController.tsx: the gesture classifier\<close>

text \<open>
  One landmark of the pose estimator: a point \<open>{x, y, z}\<close> in normalized image space,
  \<open>y\<close> increasing downwards.
\<close>

record landmark =
  x :: real
  y :: real
  z :: real

text \<open>
  Reading \<open>landmarks[i].y\<close>: an index past the end of the array yields \<open>undefined\<close>
  in JavaScript, and the property access on it throws a TypeError.
\<close>

datatype js_error = TypeError

definition landmark_y :: "landmark list \<Rightarrow> nat \<Rightarrow> js_error + real" where
  "landmark_y landmarks i =
     (if i < length landmarks then Inr (landmark.y (landmarks ! i)) else Inl TypeError)"

text \<open>
  \<open>isFingerClosed(tipIdx, pipIdx)\<close>: \<open>landmarks[tipIdx].y > landmarks[pipIdx].y\<close>,
  the left operand read first.
\<close>

definition isFingerClosed :: "landmark list \<Rightarrow> nat \<Rightarrow> nat \<Rightarrow> js_error + bool" where
  "isFingerClosed landmarks tipIdx pipIdx =
     (case landmark_y landmarks tipIdx of
        Inl e \<Rightarrow> Inl e
      | Inr tip \<Rightarrow>
          (case landmark_y landmarks pipIdx of
             Inl e \<Rightarrow> Inl e
           | Inr pip \<Rightarrow> Inr (tip > pip)))"

text \<open>
  What one call of \<open>onResults\<close> does: each field holds the argument of the call of that
  name.
\<close>

record gesture_report =
  setDebugText :: string
  onGestureChange :: bool

text \<open>
  \<open>onResults(results)\<close>, on the field \<open>results.multiHandLandmarks\<close>: \<open>None\<close> is a
  missing field, \<open>Some []\<close> no detected hand; otherwise the first hand is classified.
\<close>

definition onResults :: "landmark list list option \<Rightarrow> js_error + gesture_report" where
  "onResults multiHandLandmarks =
     (case multiHandLandmarks of
        None \<Rightarrow> Inr \<lparr>setDebugText = ''No Hand'', onGestureChange = False\<rparr>
      | Some [] \<Rightarrow> Inr \<lparr>setDebugText = ''No Hand'', onGestureChange = False\<rparr>
      | Some (landmarks # _) \<Rightarrow>
          (case isFingerClosed landmarks 8 6 of Inl e \<Rightarrow> Inl e | Inr indexClosed \<Rightarrow>
          (case isFingerClosed landmarks 12 10 of Inl e \<Rightarrow> Inl e | Inr middleClosed \<Rightarrow>
          (case isFingerClosed landmarks 16 14 of Inl e \<Rightarrow> Inl e | Inr ringClosed \<Rightarrow>
          (case isFingerClosed landmarks 20 18 of Inl e \<Rightarrow> Inl e | Inr pinkyClosed \<Rightarrow>
             (let closedFingers = (0::nat);
                  closedFingers = (if indexClosed then closedFingers + 1 else closedFingers);
                  closedFingers = (if middleClosed then closedFingers + 1 else closedFingers);
                  closedFingers = (if ringClosed then closedFingers + 1 else closedFingers);
                  closedFingers = (if pinkyClosed then closedFingers + 1 else closedFingers);
                  isFist = (closedFingers \<ge> 3)
              in Inr \<lparr>setDebugText = (if isFist then ''FIST DETECTED'' else ''OPEN HAND''),
                       onGestureChange = isFist\<rparr>))))))"

section \<open>App.tsx: the gesture state\<close>

text \<open>
  The state \<open>'normal' | 'merged'\<close> of the application; the specification calls the two
  values OPEN and FIST.
\<close>

datatype systemState = normal | merged

text \<open>\<open>handleGestureChange\<close>: \<open>setSystemState(isFist ? 'merged' : 'normal')\<close>.\<close>

definition handleGestureChange :: "bool \<Rightarrow> systemState" where
  "handleGestureChange isFist = (if isFist then merged else normal)"

text \<open>
  The classifier of the specification, \<open>classify(hand: LandmarkSet | null)\<close>: the state
  that \<open>onResults\<close> hands to \<open>handleGestureChange\<close> for a frame with that hand, or with
  no hand at all.
\<close>

definition classify :: "landmark list option \<Rightarrow> js_error + systemState" where
  "classify hand =
     (case onResults (case hand of None \<Rightarrow> Some [] | Some landmarks \<Rightarrow> Some [landmarks]) of
        Inl e \<Rightarrow> Inl e
      | Inr r \<Rightarrow> Inr (handleGestureChange (onGestureChange r)))"

text \<open>
  The fingers the vote looks at, as (tip, proximal joint) index pairs: index, middle,
  ring and pinky. The thumb (landmarks 1 to 4) is not among them.
\<close>

definition tracked_fingers :: "(nat \<times> nat) list" where
  "tracked_fingers = [(8, 6), (12, 10), (16, 14), (20, 18)]"

definition closed_count :: "landmark list \<Rightarrow> nat" where
  "closed_count landmarks =
     length (filter (\<lambda>(tip, pip). landmark.y (landmarks ! tip) > landmark.y (landmarks ! pip))
       tracked_fingers)"

section \<open>three.js: vectors and linear interpolation\<close>

text \<open>\<open>THREE.Vector3\<close>: three number fields.\<close>

record Vector3 =
  x :: real
  y :: real
  z :: real

text \<open>\<open>new THREE.Vector3(a, b, c)\<close>, and \<open>v.set(a, b, c)\<close>.\<close>

definition new_Vector3 :: "real \<Rightarrow> real \<Rightarrow> real \<Rightarrow> Vector3" where
  "new_Vector3 a b c = \<lparr>Vector3.x = a, y = b, z = c\<rparr>"

text \<open>
  Modelled from the spec: \<open>Vector3.lerp\<close> and \<open>MathUtils.lerp\<close> belong to the three.js
  library, which is not part of the sources. The specification has every smoothed
  quantity updated by \<open>current = lerp(current, target, factor)\<close>, a fixed blend ratio that
  moves the current value toward its target. \<open>this.lerp(v, alpha)\<close> adds
  \<open>(v - this) * alpha\<close> to each component of \<open>this\<close>; \<open>MathUtils.lerp(a, b, t)\<close> is
  \<open>(1 - t) * a + t * b\<close>. Here they are in exact arithmetic, as the frames of the
  animation loop use them; the same steps with every operation rounded are
  \<open>Vector3_lerp_double\<close> and \<open>MathUtils_lerp_double\<close> below.
\<close>

definition Vector3_lerp :: "Vector3 \<Rightarrow> Vector3 \<Rightarrow> real \<Rightarrow> Vector3" where
  "Vector3_lerp this v alpha =
     \<lparr>Vector3.x = Vector3.x this + (Vector3.x v - Vector3.x this) * alpha,
      y = Vector3.y this + (Vector3.y v - Vector3.y this) * alpha,
      z = Vector3.z this + (Vector3.z v - Vector3.z this) * alpha\<rparr>"

definition MathUtils_lerp :: "real \<Rightarrow> real \<Rightarrow> real \<Rightarrow> real" where
  "MathUtils_lerp a b t = (1 - t) * a + t * b"



section \<open>IEEE double arithmetic\<close>

text \<open>
  A finite double is modelled by the real number it denotes, and an arithmetic operation
  of the machine by the exact operation followed by \<open>double_round\<close>: rounding to the
  nearest double, a tie to the one with the even significand. Subnormal numbers are
  included. Overflow is not: where the machine returns an infinity, \<open>double_round\<close>
  returns a real; the statements about it keep to magnitudes of at most \<open>2 ^ 1022\<close>,
  where no operation of a smoothing step overflows. NaN is not a value of the model.
\<close>







section \<open>three.js: linear interpolation in double arithmetic\<close>






section \<open>SolarSystem.tsx: configuration\<close>

definition CONFIG_speedFactor :: real where
  "CONFIG_speedFactor = 0.3"

record planet =
  name :: string
  size :: real
  dist :: real
  speed :: real
  color :: string
  type :: string
  ring :: bool

definition PLANETS :: "planet list" where
  "PLANETS =
     [\<lparr>name = ''Mercury'', size = 1.5, dist = 35, speed = - 0.04, color = ''#b0a090'',
        type = ''Terrestrial'', ring = False\<rparr>,
      \<lparr>name = ''Venus'', size = 3.5, dist = 50, speed = - 0.015, color = ''#e3bb76'',
        type = ''Terrestrial'', ring = False\<rparr>,
      \<lparr>name = ''Earth'', size = 3.8, dist = 70, speed = - 0.01, color = ''#2277ff'',
        type = ''Terrestrial'', ring = False\<rparr>,
      \<lparr>name = ''Mars'', size = 2.0, dist = 90, speed = - 0.008, color = ''#c1440e'',
        type = ''Terrestrial'', ring = False\<rparr>,
      \<lparr>name = ''Jupiter'', size = 9.0, dist = 130, speed = - 0.004, color = ''#dcb288'',
        type = ''Gas Giant'', ring = False\<rparr>,
      \<lparr>name = ''Saturn'', size = 7.5, dist = 170, speed = - 0.003, color = ''#eebb88'',
        type = ''Gas Giant'', ring = True\<rparr>,
      \<lparr>name = ''Uranus'', size = 5.0, dist = 210, speed = - 0.002, color = ''#aaddff'',
        type = ''Ice Giant'', ring = False\<rparr>,
      \<lparr>name = ''Neptune'', size = 4.8, dist = 245, speed = - 0.001, color = ''#3355ff'',
        type = ''Ice Giant'', ring = False\<rparr>]"

section \<open>SolarSystem.tsx: the scene and its animation loop\<close>

text \<open>
  Of the scene graph, the state holds what the animation loop reads and writes: of a
  planet's mesh its \<open>rotation.y\<close>; of a planet's group its position, its scale and its
  \<open>userData\<close>; of the sun its \<open>rotation.y\<close>, its scale, the shader's time uniform and the
  visibility of its glow sprite; of each orbit ring the opacity of its material.
  Geometry, materials, lights, camera and renderer are the rendering engine's.
\<close>

record mesh =
  rotation_y :: real

record userData =
  angle :: real
  dist :: real
  speed :: real
  name :: string
  originalScale :: real
  mesh :: mesh

record group =
  position :: Vector3
  scale :: Vector3
  userData :: userData

record scene =
  sunUniforms_time :: real
  sun_rotation_y :: real
  sun_scale :: Vector3
  sunSprite_visible :: bool
  planetGroups :: "group list"
  orbitMeshes :: "real list"

text \<open>
  The body of \<open>PLANETS.forEach\<close> for one planet \<open>p\<close>, where \<open>random\<close> is the value that
  \<open>Math.random()\<close> returns there: the group starts on its orbit, in the plane \<open>y = 0\<close>,
  at scale 1, its mesh unrotated.
\<close>

definition create_planet :: "planet \<Rightarrow> real \<Rightarrow> group" where
  "create_planet p random =
     (let orbitRadius = planet.dist p;
          angle = random * pi * 2
      in \<lparr>position = new_Vector3 (cos angle * orbitRadius) 0 (sin angle * orbitRadius),
          scale = new_Vector3 1 1 1,
          userData = \<lparr>angle = angle,
                      dist = orbitRadius,
                      speed = planet.speed p * CONFIG_speedFactor,
                      name = planet.name p,
                      originalScale = 1,
                      mesh = \<lparr>rotation_y = 0\<rparr>\<rparr>\<rparr>)"

text \<open>
  The scene when the effect has run, before the first frame. \<open>random i\<close> is the draw of
  \<open>Math.random()\<close> for the planet at index \<open>i\<close> of \<open>PLANETS\<close>. Every orbit ring is created
  with opacity 0.2.
\<close>

definition init_scene :: "(nat \<Rightarrow> real) \<Rightarrow> scene" where
  "init_scene random =
     \<lparr>sunUniforms_time = 0,
      sun_rotation_y = 0,
      sun_scale = new_Vector3 1 1 1,
      sunSprite_visible = True,
      planetGroups = map (\<lambda>(i, p). create_planet p (random i)) (enumerate 0 PLANETS),
      orbitMeshes = map (\<lambda>p. 0.2) PLANETS\<rparr>"

text \<open>The body of \<open>planetGroups.forEach\<close> in \<open>animate\<close>, for one group \<open>grp\<close>.\<close>

definition animate_group :: "bool \<Rightarrow> group \<Rightarrow> group" where
  "animate_group isMerged grp =
     (let speed = userData.speed (userData grp);
          dist = userData.dist (userData grp);
          name = userData.name (userData grp);
          mesh = userData.mesh (userData grp)
      in if isMerged then
           (if name = ''Earth'' then
              (let targetPos = new_Vector3 0 0 0;
                   targetScale = 6.0
               in grp\<lparr>position := Vector3_lerp (position grp) targetPos 0.05,
                        scale := Vector3_lerp (scale grp)
                                   (new_Vector3 targetScale targetScale targetScale) 0.05,
                        userData := (userData grp)
                                      \<lparr>mesh := mesh\<lparr>rotation_y := rotation_y mesh + 0.02\<rparr>\<rparr>\<rparr>)
            else
              (let targetPos = new_Vector3 0 0 0
               in grp\<lparr>position := Vector3_lerp (position grp) targetPos 0.1,
                        scale := Vector3_lerp (scale grp) (new_Vector3 0.001 0.001 0.001) 0.1\<rparr>))
         else
           (let angle = userData.angle (userData grp) + speed;
                targetX = cos angle * dist;
                targetZ = sin angle * dist;
                targetPos = new_Vector3 targetX 0 targetZ
            in grp\<lparr>scale := Vector3_lerp (scale grp) (new_Vector3 1 1 1) 0.05,
                     position := Vector3_lerp (position grp) targetPos 0.05,
                     userData := (userData grp)
                                   \<lparr>angle := angle,
                                    mesh := mesh\<lparr>rotation_y := rotation_y mesh + 0.005\<rparr>\<rparr>\<rparr>))"

text \<open>
  One call of \<open>animate\<close>: \<open>now\<close> is the value of \<open>performance.now()\<close> and \<open>current\<close> the
  value of \<open>systemStateRef.current\<close> in that frame.
\<close>

definition animate :: "real \<Rightarrow> systemState \<Rightarrow> scene \<Rightarrow> scene" where
  "animate now current s =
     (let time = now * 0.001;
          isMerged = (current = merged);
          targetSunScale = (if isMerged then 0.001 else 1)
      in \<lparr>sunUniforms_time = time,
          sun_rotation_y = sun_rotation_y s + 0.002,
          sun_scale = Vector3_lerp (sun_scale s)
                        (new_Vector3 targetSunScale targetSunScale targetSunScale) 0.05,
          sunSprite_visible = (\<not> isMerged),
          planetGroups = map (animate_group isMerged) (planetGroups s),
          orbitMeshes = map (\<lambda>opacity.
                               (let targetOpacity = (if isMerged then 0 else 0.2)
                                in MathUtils_lerp opacity targetOpacity 0.05))
                          (orbitMeshes s)\<rparr>)"

text \<open>
  The scene after a run of frames, the first frame first; each frame comes with its
  clock value and the gesture state current in it.
\<close>

fun run_frames :: "(real \<times> systemState) list \<Rightarrow> scene \<Rightarrow> scene" where
  "run_frames [] s = s"
| "run_frames ((now, current) # frames) s = run_frames frames (animate now current s)"

section \<open>SolarSystem.tsx: procedural textures\<close>

text \<open>
  \<open>canvas.getContext('2d')\<close> returns the drawing context, or \<open>null\<close> when none can be
  created: a value of type \<open>CanvasRenderingContext2D option\<close>.
\<close>

datatype CanvasRenderingContext2D = CanvasRenderingContext2D

text \<open>
  \<open>createRadialGradient(x0, y0, r0, x1, y1, r1)\<close> and \<open>createLinearGradient(x0, y0, x1, y1)\<close>,
  each with the colour stops added to it, in order.
\<close>

datatype gradient =
    RadialGradient real real real real real real "(real \<times> string) list"
  | LinearGradient real real real real "(real \<times> string) list"

text \<open>
  What a canvas holds when its texture is made: the bytes written back by
  \<open>putImageData\<close> (four per texel: red, green, blue, alpha; texel \<open>(x, y)\<close> starts at index
  \<open>(y * width + x) * 4\<close>), or one gradient filled over the whole canvas, whose
  rasterization is the browser's.
\<close>

datatype painted = ImageData "nat \<Rightarrow> nat" | FillRect gradient

record canvas =
  width :: nat
  height :: nat
  content :: painted

text \<open>\<open>new THREE.Texture()\<close>, a texture without an image, and \<open>new THREE.CanvasTexture(canvas)\<close>.\<close>

datatype texture = Texture | CanvasTexture canvas

text \<open>
  The fill colour. The program passes \<open>#rrggbb\<close> strings only, and only these are parsed
  here; the canvas ignores a string that is no colour and keeps its initial fill style,
  black. A fill with such a colour is opaque: alpha is 255.
\<close>

definition hexDigit :: "char \<Rightarrow> nat option" where
  "hexDigit c =
     (let n = (of_char c :: nat)
      in if 48 \<le> n \<and> n \<le> 57 then Some (n - 48)
         else if 97 \<le> n \<and> n \<le> 102 then Some (n - 87)
         else if 65 \<le> n \<and> n \<le> 70 then Some (n - 55)
         else None)"

definition hexByte :: "char \<Rightarrow> char \<Rightarrow> nat option" where
  "hexByte hi lo =
     (case (hexDigit hi, hexDigit lo) of
        (Some a, Some b) \<Rightarrow> Some (16 * a + b)
      | _ \<Rightarrow> None)"

fun parseHexColor :: "string \<Rightarrow> (nat \<times> nat \<times> nat) option" where
  "parseHexColor [h, r1, r2, g1, g2, b1, b2] =
     (if h = CHR ''#'' then
        (case (hexByte r1 r2, hexByte g1 g2, hexByte b1 b2) of
           (Some r, Some g, Some b) \<Rightarrow> Some (r, g, b)
         | _ \<Rightarrow> None)
      else None)"
| "parseHexColor _ = None"

text \<open>
  \<open>ctx.fillStyle = colorHex; ctx.fillRect(0, 0, size, size)\<close> followed by
  \<open>ctx.getImageData(0, 0, size, size).data\<close>: every texel holds the fill colour.
\<close>

definition fillRect :: "string \<Rightarrow> nat \<Rightarrow> nat" where
  "fillRect colorHex =
     (let (r, g, b) = (case parseHexColor colorHex of Some c \<Rightarrow> c | None \<Rightarrow> (0, 0, 0))
      in (\<lambda>j. if j mod 4 = 0 then r else if j mod 4 = 1 then g else if j mod 4 = 2 then b else 255))"

text \<open>
  A store into the \<open>Uint8ClampedArray\<close> of the image data: the number is clamped to
  0..255 and rounded to the nearest integer, a tie to the even one.
\<close>

definition toUint8Clamped :: "real \<Rightarrow> nat" where
  "toUint8Clamped v =
     (if v \<le> 0 then 0
      else if 255 \<le> v then 255
      else (let fl = \<lfloor>v\<rfloor>; d = v - of_int fl
            in nat (if d < 1 / 2 then fl
                    else if 1 / 2 < d then fl + 1
                    else if even fl then fl else fl + 1)))"

text \<open>
  The body of the inner loop of \<open>createPlanetTexture\<close>, for the texel in column \<open>x\<close> of
  row \<open>y\<close>: the arguments are the body name, the noise function made by
  \<open>createNoise3D()\<close>, the texture size, \<open>y\<close>, \<open>x\<close> and the image data.
\<close>

definition texel_body ::
  "string \<Rightarrow> (real \<Rightarrow> real \<Rightarrow> real \<Rightarrow> real) \<Rightarrow> nat \<Rightarrow> nat \<Rightarrow> nat \<Rightarrow> (nat \<Rightarrow> nat) \<Rightarrow> (nat \<Rightarrow> nat)" where
  "texel_body = (\<lambda>name noise3D size y x data.
     (let ny = real y / real size;
          nx = real x / real size;
          i = (y * size + x) * 4;
          noiseVal = noise3D (nx * 3) (ny * 3) 0
      in if name = ''Jupiter'' then
           (let turbulence = noise3D (nx * 10) (ny * 10) 0 * 0.05;
                noiseVal = noise3D (nx * 3) (ny * 20 + turbulence) 0
            in if noiseVal > 0.3 then data(i := 210, i + 1 := 180, i + 2 := 140)
               else if noiseVal < - 0.2 then data(i := 160, i + 1 := 100, i + 2 := 60)
               else data(i := 190, i + 1 := 150, i + 2 := 110))
         else if name = ''Earth'' then
           (let data = (if noiseVal > 0.15 then data(i := 40, i + 1 := 140, i + 2 := 60)
                        else data(i := 10, i + 1 := 40, i + 2 := 120));
                cloudNoise = noise3D (nx * 6) (ny * 6) 10
            in if cloudNoise > 0.5 then data(i := 255, i + 1 := 255, i + 2 := 255) else data)
         else
           (let varC = noiseVal * 20;
                data = data(i := toUint8Clamped (max 0 (min 255 (real (data i) + varC))));
                data = data(i + 1 := toUint8Clamped (max 0 (min 255 (real (data (i + 1)) + varC))));
                data = data(i + 2 := toUint8Clamped (max 0 (min 255 (real (data (i + 2)) + varC))))
            in data)))"

text \<open>
  \<open>createPlanetTexture(name, colorHex)\<close>; \<open>ctx\<close> is what \<open>getContext\<close> returns for its
  canvas. The two loops run over the rows and, in each row, over the columns.
\<close>

definition createPlanetTexture ::
  "CanvasRenderingContext2D option \<Rightarrow> string \<Rightarrow> string \<Rightarrow> (real \<Rightarrow> real \<Rightarrow> real \<Rightarrow> real) \<Rightarrow> texture" where
  "createPlanetTexture ctx = (\<lambda>name colorHex noise3D.
     (let size = 512
      in case ctx of
           None \<Rightarrow> Texture
         | Some _ \<Rightarrow>
             (let data = fillRect colorHex;
                  data = fold (\<lambda>y data. fold (\<lambda>x data. texel_body name noise3D size y x data)
                                          [0..<size] data)
                           [0..<size] data
              in CanvasTexture \<lparr>width = size, height = size, content = ImageData data\<rparr>)))"

definition createGlowTexture :: "CanvasRenderingContext2D option \<Rightarrow> texture" where
  "createGlowTexture ctx =
     (case ctx of
        None \<Rightarrow> Texture
      | Some _ \<Rightarrow>
          (let grad = RadialGradient 32 32 0 32 32 32
                        [(0, ''rgba(255, 255, 255, 1)''),
                         (0.2, ''rgba(255, 220, 100, 0.6)''),
                         (1, ''rgba(0, 0, 0, 0)'')]
           in CanvasTexture \<lparr>width = 64, height = 64, content = FillRect grad\<rparr>))"

definition createRingTexture :: "CanvasRenderingContext2D option \<Rightarrow> texture" where
  "createRingTexture ctx =
     (case ctx of
        None \<Rightarrow> Texture
      | Some _ \<Rightarrow>
          (let grad = LinearGradient 0 0 256 0
                        [(0.0, ''rgba(0,0,0,0)''),
                         (0.2, ''rgba(200,180,150,0.8)''),
                         (0.8, ''rgba(180,170,140,0.5)''),
                         (1.0, ''rgba(0,0,0,0)'')]
           in CanvasTexture \<lparr>width = 256, height = 2, content = FillRect grad\<rparr>))"

text \<open>
  The four bytes of the texel in column \<open>col\<close> of row \<open>row\<close> of a texture made from image
  data; \<open>None\<close> for a texture that has none.
\<close>

definition texel_at :: "texture \<Rightarrow> nat \<Rightarrow> nat \<Rightarrow> (nat \<times> nat \<times> nat \<times> nat) option" where
  "texel_at t col row =
     (case t of
        Texture \<Rightarrow> None
      | CanvasTexture c \<Rightarrow>
          (case content c of
             FillRect _ \<Rightarrow> None
           | ImageData data \<Rightarrow>
               (let i = (row * width c + col) * 4
                in Some (data i, data (i + 1), data (i + 2), data (i + 3)))))"

text \<open>
  The colour rule of the "Earth" texture in the specification's words, for the byte
  \<open>k\<close> (0 red, 1 green, 2 blue) of the texel in column \<open>col\<close> of row \<open>row\<close>: land (green)
  where the noise sample exceeds 0.15 and water (blue) elsewhere, and white wherever the
  cloud sample exceeds 0.5.
\<close>

definition Earth_rgb :: "(real \<Rightarrow> real \<Rightarrow> real \<Rightarrow> real) \<Rightarrow> nat \<Rightarrow> nat \<Rightarrow> nat \<Rightarrow> nat \<Rightarrow> nat" where
  "Earth_rgb noise3D sz row col k =
     (let land = (noise3D (real col / real sz * 3) (real row / real sz * 3) 0 > 0.15);
          cloud = (noise3D (real col / real sz * 6) (real row / real sz * 6) 10 > 0.5)
      in if cloud then 255
         else if k = 0 then (if land then 40 else 10)
         else if k = 1 then (if land then 140 else 40)
         else (if land then 60 else 120))"

section \<open>App.tsx: camera toggle and gesture state\<close>

text \<open>
  The state of \<open>App\<close>: its two \<open>useState\<close> values, and whether a \<open>HandController\<close> is
  mounted with its detection loop scheduled and its \<open>hands\<close> instance open. The debug text
  of the controller is left out.
\<close>

record app =
  systemState :: systemState
  cameraEnabled :: bool
  detecting :: bool

text \<open>The first render: state \<open>'normal'\<close>, camera enabled, the controller mounted.\<close>

definition App_initial :: app where
  "App_initial = \<lparr>systemState = normal, cameraEnabled = True, detecting = True\<rparr>"

text \<open>
  The cleanup of the controller's effect, run when it unmounts:
  \<open>cancelAnimationFrame(animationFrameId); hands.close()\<close>.
\<close>

definition cleanup :: "app \<Rightarrow> app" where
  "cleanup s = s\<lparr>detecting := False\<rparr>"

text \<open>The controller's effect, run when it mounts: \<open>hands\<close> is created and \<open>detect()\<close> started.\<close>

definition mount :: "app \<Rightarrow> app" where
  "mount s = s\<lparr>detecting := True\<rparr>"

text \<open>
  The button's \<open>onClick\<close>: \<open>setCameraEnabled(!cameraEnabled)\<close>. The controller is rendered
  only while \<open>cameraEnabled\<close> holds, so the click unmounts or mounts it.
\<close>

definition onClick :: "app \<Rightarrow> app" where
  "onClick s =
     (let s' = s\<lparr>cameraEnabled := \<not> cameraEnabled s\<rparr>
      in if cameraEnabled s' then mount s' else cleanup s')"

text \<open>
  A result of the pose estimator reaching \<open>onResults\<close> of the controller, whose
  \<open>onGestureChange\<close> is \<open>handleGestureChange\<close>. \<open>onResults\<close> does not ask whether the
  controller is still mounted. An exception leaves the state as it is.
\<close>

definition deliver :: "landmark list list option \<Rightarrow> app \<Rightarrow> app" where
  "deliver multiHandLandmarks s =
     (case onResults multiHandLandmarks of
        Inl e \<Rightarrow> s
      | Inr r \<Rightarrow> s\<lparr>systemState := handleGestureChange (onGestureChange r)\<rparr>)"

section \<open>Sample inputs\<close>

text \<open>
  A hand of 21 landmarks with the tips of index, middle and ring finger (8, 12, 16) below
  their proximal joints, and the tip of the pinky (20) level with its joint (18).
\<close>

definition fist_hand :: "landmark list" where
  "fist_hand =
     map (\<lambda>i. \<lparr>landmark.x = 0.5, y = (if i \<in> {8, 12, 16} then 0.8 else 0.5), z = 0\<rparr>) [0..<21]"

text \<open>
  A second hand with the same eight vertical coordinates at the landmarks 6, 8, ..., 20,
  and different values everywhere else.
\<close>

definition shifted_hand :: "landmark list" where
  "shifted_hand =
     map (\<lambda>i. \<lparr>landmark.x = 0.1,
               y = (if i \<in> {8, 12, 16} then 0.8
                    else if i \<in> {6, 10, 14, 18, 20} then 0.5 else 0.9),
               z = - 0.3\<rparr>) [0..<21]"

text \<open>A noise field with the sample 0.6 in the cloud layer (\<open>z = 10\<close>) and 0.2 elsewhere.\<close>

definition sample_noise :: "real \<Rightarrow> real \<Rightarrow> real \<Rightarrow> real" where
  "sample_noise a b c = (if c = 10 then 0.6 else 0.2)"




section \<open>The classifier: auxiliary facts\<close>

lemma isFingerClosed_in_range:
  "tipIdx < length landmarks \<Longrightarrow> pipIdx < length landmarks \<Longrightarrow>
   isFingerClosed landmarks tipIdx pipIdx
     = Inr (landmark.y (landmarks ! tipIdx) > landmark.y (landmarks ! pipIdx))"
  by (simp add: isFingerClosed_def landmark_y_def)

lemma onResults_hand:
  assumes "20 < length landmarks"
  shows "onResults (Some (landmarks # rest))
           = Inr \<lparr>setDebugText = (if 3 \<le> closed_count landmarks then ''FIST DETECTED'' else ''OPEN HAND''),
                  onGestureChange = (3 \<le> closed_count landmarks)\<rparr>"
  using assms
  by (simp add: onResults_def isFingerClosed_in_range closed_count_def tracked_fingers_def Let_def)

lemma classify_hand:
  "20 < length landmarks \<Longrightarrow>
   classify (Some landmarks) = Inr (if 3 \<le> closed_count landmarks then merged else normal)"
  by (simp add: classify_def onResults_hand handleGestureChange_def)

lemma classify_null: "classify None = Inr normal"
  by (simp add: classify_def onResults_def handleGestureChange_def)

lemma closed_count_cong:
  assumes "\<forall>i \<in> {6, 8, 10, 12, 14, 16, 18, 20}. landmark.y (a ! i) = landmark.y (b ! i)"
  shows "closed_count a = closed_count b"
  using assms by (simp add: closed_count_def tracked_fingers_def)

section \<open>The animation loop: auxiliary facts\<close>

lemma animate_group_merged_angle:
  "userData.angle (userData (animate_group True g)) = userData.angle (userData g)"
  by (simp add: animate_group_def Let_def)

lemma planetGroups_animate:
  "planetGroups (animate now current s) = map (animate_group (current = merged)) (planetGroups s)"
  by (simp add: animate_def Let_def)

lemma animate_group_merged_Earth:
  assumes "userData.name (userData g) = ''Earth''"
  shows "position (animate_group True g) = Vector3_lerp (position g) (new_Vector3 0 0 0) 0.05"
    and "scale (animate_group True g) = Vector3_lerp (scale g) (new_Vector3 6 6 6) 0.05"
    and "rotation_y (userData.mesh (userData (animate_group True g)))
           = rotation_y (userData.mesh (userData g)) + 0.02"
  using assms by (simp_all add: animate_group_def Let_def)

lemma animate_group_merged_other:
  assumes "userData.name (userData g) \<noteq> ''Earth''"
  shows "position (animate_group True g) = Vector3_lerp (position g) (new_Vector3 0 0 0) 0.1"
    and "scale (animate_group True g) = Vector3_lerp (scale g) (new_Vector3 0.001 0.001 0.001) 0.1"
  using assms by (simp_all add: animate_group_def Let_def)

lemma animate_group_normal:
  shows "userData.angle (userData (animate_group False g))
           = userData.angle (userData g) + userData.speed (userData g)"
    and "position (animate_group False g)
           = Vector3_lerp (position g)
               (new_Vector3
                  (cos (userData.angle (userData g) + userData.speed (userData g)) * userData.dist (userData g))
                  0
                  (sin (userData.angle (userData g) + userData.speed (userData g)) * userData.dist (userData g)))
               0.05"
    and "scale (animate_group False g) = Vector3_lerp (scale g) (new_Vector3 1 1 1) 0.05"
    and "rotation_y (userData.mesh (userData (animate_group False g)))
           = rotation_y (userData.mesh (userData g)) + 0.005"
  by (simp_all add: animate_group_def Let_def)

lemma animate_sun_merged:
  "sun_scale (animate now merged s) = Vector3_lerp (sun_scale s) (new_Vector3 0.001 0.001 0.001) 0.05"
  "sunSprite_visible (animate now merged s) = False"
  by (simp_all add: animate_def Let_def)

lemma Vector3_lerp_y0:
  "Vector3.y c = 0 \<Longrightarrow> Vector3.y t = 0 \<Longrightarrow> Vector3.y (Vector3_lerp c t f) = 0"
  by (simp add: Vector3_lerp_def)

lemma animate_group_y0:
  "Vector3.y (position g) = 0 \<Longrightarrow> Vector3.y (position (animate_group isMerged g)) = 0"
  by (simp add: animate_group_def Let_def Vector3_lerp_def new_Vector3_def)

lemma create_planet_y0: "Vector3.y (position (create_planet p r)) = 0"
  by (simp add: create_planet_def Let_def new_Vector3_def)

lemma init_scene_y0: "\<forall>g \<in> set (planetGroups (init_scene random)). Vector3.y (position g) = 0"
  by (auto simp add: init_scene_def create_planet_y0)

lemma run_frames_y0:
  "\<forall>g \<in> set (planetGroups s). Vector3.y (position g) = 0 \<Longrightarrow>
   \<forall>g \<in> set (planetGroups (run_frames frames s)). Vector3.y (position g) = 0"
proof (induction frames arbitrary: s)
  case Nil
  then show ?case by simp
next
  case (Cons fr frames)
  obtain now current where fr: "fr = (now, current)" by (cases fr)
  have "\<forall>g \<in> set (planetGroups (animate now current s)). Vector3.y (position g) = 0"
    using Cons.prems by (auto simp add: planetGroups_animate animate_group_y0)
  then show ?case using Cons.IH fr by simp
qed

lemma length_planetGroups_run:
  "length (planetGroups (run_frames frames s)) = length (planetGroups s)"
  by (induction frames arbitrary: s) (auto simp add: planetGroups_animate)

lemma length_planetGroups_init: "length (planetGroups (init_scene random)) = 8"
  by (simp add: init_scene_def PLANETS_def)

section \<open>Double arithmetic: auxiliary facts\<close>

























































section \<open>Textures: auxiliary facts\<close>

lemma parse_Earth: "parseHexColor ''#2277ff'' = Some (34, 119, 255)"
  by (simp add: hexByte_def hexDigit_def)

lemma texel_body_other:
  assumes "j div 4 \<noteq> row * sz + col"
  shows "texel_body nm noise3D sz row col data j = data j"
proof -
  have "j \<noteq> (row * sz + col) * 4" "j \<noteq> (row * sz + col) * 4 + 1"
    "j \<noteq> (row * sz + col) * 4 + 2"
    using assms by auto
  then show ?thesis by (simp add: texel_body_def Let_def)
qed

lemma alpha_index:
  fixes j t :: nat
  assumes "j mod 4 = 3"
  shows "j \<noteq> t * 4" "j \<noteq> t * 4 + 1" "j \<noteq> t * 4 + 2"
  using assms by presburger+

lemma texel_body_alpha:
  assumes "j mod 4 = 3"
  shows "texel_body nm noise3D sz row col data j = data j"
  using alpha_index [OF assms, of "row * sz + col"]
  by (simp add: texel_body_def Let_def)

lemma texel_body_Earth:
  assumes "k < 3"
  shows "texel_body ''Earth'' noise3D sz row col data ((row * sz + col) * 4 + k)
         = Earth_rgb noise3D sz row col k"
proof -
  from assms have "k = 0 \<or> k = 1 \<or> k = 2" by arith
  then show ?thesis
    by (auto simp add: texel_body_def Earth_rgb_def Let_def)
qed

lemma cell_inj:
  fixes row col row' col' sz :: nat
  assumes "row * sz + col = row' * sz + col'" "col < sz" "col' < sz"
  shows "row = row' \<and> col = col'"
proof -
  have "(row * sz + col) div sz = row" "(row' * sz + col') div sz = row'"
    "(row * sz + col) mod sz = col" "(row' * sz + col') mod sz = col'"
    using assms(2,3) by simp_all
  then show ?thesis using assms(1) by metis
qed

lemma row_other:
  assumes "\<forall>col \<in> set cols. j div 4 \<noteq> row * sz + col"
  shows "fold (\<lambda>x data. texel_body nm noise3D sz row x data) cols data j = data j"
  using assms by (induction cols arbitrary: data) (simp_all add: texel_body_other)

lemma row_Earth:
  assumes "col \<in> set cols" "k < 3"
  shows "fold (\<lambda>x data. texel_body ''Earth'' noise3D sz row x data) cols data
           ((row * sz + col) * 4 + k)
         = Earth_rgb noise3D sz row col k"
  using assms
proof (induction cols arbitrary: data)
  case Nil
  then show ?case by simp
next
  case (Cons c cols)
  show ?case
  proof (cases "col \<in> set cols")
    case True
    then show ?thesis using Cons by simp
  next
    case False
    then have c: "c = col" using Cons.prems(1) by simp
    have d: "((row * sz + col) * 4 + k) div 4 = row * sz + col"
      using Cons.prems(2) by simp
    have "\<forall>c' \<in> set cols. ((row * sz + col) * 4 + k) div 4 \<noteq> row * sz + c'"
      unfolding d using False by auto
    then have "fold (\<lambda>x data. texel_body ''Earth'' noise3D sz row x data) cols
                 (texel_body ''Earth'' noise3D sz row col data) ((row * sz + col) * 4 + k)
               = texel_body ''Earth'' noise3D sz row col data ((row * sz + col) * 4 + k)"
      by (rule row_other)
    also have "\<dots> = Earth_rgb noise3D sz row col k"
      using Cons.prems(2) by (rule texel_body_Earth)
    finally show ?thesis by (simp add: c)
  qed
qed

lemma rows_other:
  assumes "\<forall>row \<in> set rows. \<forall>col \<in> set cols. j div 4 \<noteq> row * sz + col"
  shows "fold (\<lambda>y data. fold (\<lambda>x data. texel_body nm noise3D sz y x data) cols data)
           rows data j = data j"
  using assms by (induction rows arbitrary: data) (simp_all add: row_other)

lemma rows_Earth:
  assumes "row \<in> set rows" "col \<in> set cols" "\<forall>c \<in> set cols. c < sz" "k < 3"
  shows "fold (\<lambda>y data. fold (\<lambda>x data. texel_body ''Earth'' noise3D sz y x data) cols data)
           rows data ((row * sz + col) * 4 + k)
         = Earth_rgb noise3D sz row col k"
  using assms
proof (induction rows arbitrary: data)
  case Nil
  then show ?case by simp
next
  case (Cons r rows)
  show ?case
  proof (cases "row \<in> set rows")
    case True
    then show ?thesis using Cons by simp
  next
    case False
    then have r: "r = row" using Cons.prems(1) by simp
    have d: "((row * sz + col) * 4 + k) div 4 = row * sz + col"
      using Cons.prems(4) by simp
    have "\<forall>r' \<in> set rows. \<forall>c' \<in> set cols.
             ((row * sz + col) * 4 + k) div 4 \<noteq> r' * sz + c'"
    proof (intro ballI)
      fix r' c' assume *: "r' \<in> set rows" "c' \<in> set cols"
      then have "r' \<noteq> row" "c' < sz" "col < sz" using False Cons.prems(2,3) by auto
      then show "((row * sz + col) * 4 + k) div 4 \<noteq> r' * sz + c'"
        unfolding d using cell_inj [of row sz col r' c'] by blast
    qed
    then have "fold (\<lambda>y data. fold (\<lambda>x data. texel_body ''Earth'' noise3D sz y x data) cols data)
                 rows (fold (\<lambda>x data. texel_body ''Earth'' noise3D sz row x data) cols data)
                 ((row * sz + col) * 4 + k)
               = fold (\<lambda>x data. texel_body ''Earth'' noise3D sz row x data) cols data
                   ((row * sz + col) * 4 + k)"
      by (rule rows_other)
    also have "\<dots> = Earth_rgb noise3D sz row col k"
      using Cons.prems(2,4) by (rule row_Earth)
    finally show ?thesis by (simp add: r)
  qed
qed

lemma rows_alpha:
  assumes "j mod 4 = 3"
  shows "fold (\<lambda>y data. fold (\<lambda>x data. texel_body nm noise3D sz y x data) cols data)
           rows data j = data j"
proof (induction rows arbitrary: data)
  case Nil
  then show ?case by simp
next
  case (Cons r rows)
  have "fold (\<lambda>x data. texel_body nm noise3D sz r x data) cols data j = data j" for data
    by (induction cols arbitrary: data) (simp_all add: texel_body_alpha assms)
  then show ?case using Cons by simp
qed

lemma fillRect_alpha: "j mod 4 = 3 \<Longrightarrow> fillRect colorHex j = 255"
  by (simp add: fillRect_def Let_def split: prod.splits)

section \<open>Sample inputs: auxiliary facts\<close>

lemma length_fist_hand: "length fist_hand = 21"
  by (simp add: fist_hand_def)

lemma length_shifted_hand: "length shifted_hand = 21"
  by (simp add: shifted_hand_def)

lemma closed_count_fist_hand: "closed_count fist_hand = 3"
  by (simp add: closed_count_def tracked_fingers_def fist_hand_def)

lemma hands_agree:
  "\<forall>i \<in> {6, 8, 10, 12, 14, 16, 18, 20}. landmark.y (fist_hand ! i) = landmark.y (shifted_hand ! i)"
  by (simp add: fist_hand_def shifted_hand_def)

lemma hands_differ: "fist_hand \<noteq> shifted_hand"
proof
  assume "fist_hand = shifted_hand"
  then have "landmark.x (fist_hand ! 0) = landmark.x (shifted_hand ! 0)" by simp
  then show False by (simp add: fist_hand_def shifted_hand_def)
qed

lemma planetGroups_init_nth:
  "i < length PLANETS \<Longrightarrow>
   planetGroups (init_scene random) ! i = create_planet (PLANETS ! i) (random i)"
  by (simp add: init_scene_def nth_enumerate_eq)

lemma length_PLANETS: "length PLANETS = 8"
  by (simp add: PLANETS_def)

lemma PLANETS_Earth:
  "PLANETS ! 2 = \<lparr>planet.name = ''Earth'', size = 3.8, dist = 70, speed = - 0.01,
                   color = ''#2277ff'', type = ''Terrestrial'', ring = False\<rparr>"
  by (simp add: PLANETS_def)

lemma create_Earth:
  "create_planet (PLANETS ! 2) 0
   = \<lparr>position = new_Vector3 70 0 0, scale = new_Vector3 1 1 1,
      userData = \<lparr>angle = 0, dist = 70, speed = - 0.003, name = ''Earth'', originalScale = 1,
                  mesh = \<lparr>rotation_y = 0\<rparr>\<rparr>\<rparr>"
  by (simp add: PLANETS_Earth create_planet_def CONFIG_speedFactor_def Let_def)

section \<open>Further auxiliary facts\<close>

lemma animate_group_static:
  "userData.speed (userData (animate_group m g)) = userData.speed (userData g)"
  "userData.dist (userData (animate_group m g)) = userData.dist (userData g)"
  "userData.name (userData (animate_group m g)) = userData.name (userData g)"
  by (simp_all add: animate_group_def Let_def)

lemma run_frames_static:
  assumes "i < length (planetGroups s)"
  shows "userData.speed (userData (planetGroups (run_frames frames s) ! i))
           = userData.speed (userData (planetGroups s ! i))"
    and "userData.dist (userData (planetGroups (run_frames frames s) ! i))
           = userData.dist (userData (planetGroups s ! i))"
    and "userData.name (userData (planetGroups (run_frames frames s) ! i))
           = userData.name (userData (planetGroups s ! i))"
  using assms
  by (induction frames arbitrary: s)
    (auto simp add: planetGroups_animate animate_group_static)

lemma create_planet_static:
  "userData.speed (userData (create_planet p r)) = planet.speed p * CONFIG_speedFactor"
  "userData.dist (userData (create_planet p r)) = planet.dist p"
  "userData.name (userData (create_planet p r)) = planet.name p"
  "userData.angle (userData (create_planet p r)) = r * pi * 2"
  "position (create_planet p r)
     = new_Vector3 (cos (r * pi * 2) * planet.dist p) 0 (sin (r * pi * 2) * planet.dist p)"
  by (simp_all add: create_planet_def Let_def)

lemma reachable_static:
  assumes "i < length PLANETS"
  shows "userData.speed (userData (planetGroups (run_frames frames (init_scene random)) ! i))
           = planet.speed (PLANETS ! i) * CONFIG_speedFactor"
    and "userData.dist (userData (planetGroups (run_frames frames (init_scene random)) ! i))
           = planet.dist (PLANETS ! i)"
    and "userData.name (userData (planetGroups (run_frames frames (init_scene random)) ! i))
           = planet.name (PLANETS ! i)"
  using assms
  by (simp_all add: run_frames_static length_planetGroups_init length_PLANETS
      planetGroups_init_nth create_planet_static)

lemma onResults_fist_hand:
  "onResults (Some [fist_hand])
     = Inr \<lparr>setDebugText = ''FIST DETECTED'', onGestureChange = True\<rparr>"
  by (simp add: onResults_hand length_fist_hand closed_count_fist_hand)

lemma Earth_fold_rgb:
  assumes "col < 512" "row < 512" "k < 3"
  shows "fold (\<lambda>y data. fold (\<lambda>x data. texel_body ''Earth'' noise3D 512 y x data) [0..<512] data)
           [0..<512] data ((row * 512 + col) * 4 + k)
         = Earth_rgb noise3D 512 row col k"
  using assms by (intro rows_Earth) simp_all

lemma Earth_fold_alpha:
  "fold (\<lambda>y data. fold (\<lambda>x data. texel_body ''Earth'' noise3D 512 y x data) [0..<512] data)
           [0..<512] (fillRect colorHex) ((row * 512 + col) * 4 + 3) = 255"
proof -
  have "(t * 4 + 3) mod 4 = 3" for t :: nat by simp
  then have m: "((row * 512 + col) * 4 + 3) mod 4 = 3" .
  show ?thesis
    using rows_alpha [OF m] fillRect_alpha [OF m] by simp
qed

section \<open>The gesture classifier\<close>

text \<open>
  C1. For a hand of 21 landmarks the classifier answers FIST (\<open>merged\<close>) exactly when at
  least three of the four tracked fingers have their tip strictly below the proximal
  joint (a tip level with its joint is not counted, the comparison in \<open>closed_count\<close>
  being strict); with at most two such fingers it answers OPEN (\<open>normal\<close>); and with no
  hand it answers OPEN.
\<close>

theorem classify_fist_iff:
  "(length landmarks = 21 \<longrightarrow>
      (classify (Some landmarks) = Inr merged \<longleftrightarrow> 3 \<le> closed_count landmarks)
      \<and> (closed_count landmarks \<le> 2 \<longrightarrow> classify (Some landmarks) = Inr normal))
   \<and> classify None = Inr normal"
  by (simp add: classify_hand classify_null)

theorem classify_fist_iff_witness:
  "length fist_hand = 21 \<and> closed_count fist_hand = 3 \<and> classify (Some fist_hand) = Inr merged"
  using classify_fist_iff [of fist_hand]
  by (simp add: length_fist_hand closed_count_fist_hand)

text \<open>
  C9. The classification depends only on the vertical coordinates of the landmarks 6, 8,
  10, 12, 14, 16, 18 and 20: two hands of 21 landmarks that agree on these eight values
  are classified alike, whatever their other coordinates and landmarks.
\<close>

theorem classify_depends_on_eight_y:
  assumes "length a = 21" "length b = 21"
    and "\<forall>i \<in> {6, 8, 10, 12, 14, 16, 18, 20}. landmark.y (a ! i) = landmark.y (b ! i)"
  shows "classify (Some a) = classify (Some b)"
  using assms(1,2) closed_count_cong [OF assms(3)] by (simp add: classify_hand)

theorem classify_depends_on_eight_y_witness:
  "fist_hand \<noteq> shifted_hand \<and> classify (Some fist_hand) = classify (Some shifted_hand)"
  using classify_depends_on_eight_y [OF length_fist_hand length_shifted_hand hands_agree]
  by (simp add: hands_differ)

section \<open>Frames in the merged state\<close>

text \<open>
  C6. A frame in the FIST (\<open>merged\<close>) state leaves the angle of every body as it was:
  the step of one group does, and so does the whole frame, body by body.
\<close>

theorem fist_frame_keeps_angle:
  "userData.angle (userData (animate_group True g)) = userData.angle (userData g)
   \<and> map (\<lambda>g. userData.angle (userData g)) (planetGroups (animate now merged s))
       = map (\<lambda>g. userData.angle (userData g)) (planetGroups s)"
  by (simp add: planetGroups_animate animate_group_merged_angle)

text \<open>
  C2. In a frame in the FIST (\<open>merged\<close>) state the sun's scale is smoothed toward 0.001
  in every component and its glow sprite is made invisible; the body named "Earth" is
  smoothed toward the origin and toward the scale 6, and its mesh turns by 0.02, where a
  frame in the OPEN state would turn it by 0.005; every other body is smoothed toward the
  origin and toward the scale 0.001.
\<close>

theorem fist_frame_targets:
  assumes "i < length (planetGroups s)"
  shows "(let s' = animate now merged s;
              g = planetGroups s ! i;
              g' = planetGroups s' ! i
          in sun_scale s' = Vector3_lerp (sun_scale s) (new_Vector3 0.001 0.001 0.001) 0.05
             \<and> sunSprite_visible s' = False
             \<and> (userData.name (userData g) = ''Earth'' \<longrightarrow>
                  position g' = Vector3_lerp (position g) (new_Vector3 0 0 0) 0.05
                  \<and> scale g' = Vector3_lerp (scale g) (new_Vector3 6 6 6) 0.05
                  \<and> rotation_y (userData.mesh (userData g'))
                      = rotation_y (userData.mesh (userData g)) + 0.02
                  \<and> rotation_y (userData.mesh (userData (planetGroups (animate now normal s) ! i)))
                      = rotation_y (userData.mesh (userData g)) + 0.005)
             \<and> (userData.name (userData g) \<noteq> ''Earth'' \<longrightarrow>
                  position g' = Vector3_lerp (position g) (new_Vector3 0 0 0) 0.1
                  \<and> scale g' = Vector3_lerp (scale g) (new_Vector3 0.001 0.001 0.001) 0.1))"
  using assms
  by (simp add: Let_def planetGroups_animate animate_sun_merged animate_group_merged_Earth
      animate_group_merged_other animate_group_normal)

theorem fist_frame_targets_witness:
  "2 < length (planetGroups (init_scene (\<lambda>i. 0)))
   \<and> position (planetGroups (animate 0 merged (init_scene (\<lambda>i. 0))) ! 2) = new_Vector3 66.5 0 0
   \<and> scale (planetGroups (animate 0 merged (init_scene (\<lambda>i. 0))) ! 2) = new_Vector3 1.25 1.25 1.25"
proof -
  have len: "2 < length (planetGroups (init_scene (\<lambda>i. 0)))"
    by (simp add: length_planetGroups_init)
  have g: "planetGroups (init_scene (\<lambda>i. 0)) ! 2 = create_planet (PLANETS ! 2) 0"
    by (simp add: planetGroups_init_nth length_PLANETS)
  show ?thesis
    using len fist_frame_targets [OF len, of 0]
    by (simp add: Let_def g create_Earth Vector3_lerp_def new_Vector3_def)
qed

section \<open>Frames in the normal state\<close>

text \<open>
  C3. In every frame in the OPEN (\<open>normal\<close>) state, for every body of every scene that
  the animation loop can reach, the angle advances by the body's own signed speed
  constant times the global speed factor, and the position is smoothed toward the point
  \<open>(cos angle' * dist, 0, sin angle' * dist)\<close> of the new angle. The speed factor is 0.3;
  so a body whose speed constant is -0.01, starting at angle 0, has the angle -0.003
  after one such frame, and the target \<open>(dist * cos (-0.003), 0, dist * sin (-0.003))\<close>.
\<close>

theorem open_frame_orbit:
  assumes "i < length PLANETS"
  shows "(let s = run_frames frames (init_scene random);
              p = PLANETS ! i;
              g = planetGroups s ! i;
              g' = planetGroups (animate now normal s) ! i;
              angle' = userData.angle (userData g) + planet.speed p * CONFIG_speedFactor
          in userData.angle (userData g') = angle'
             \<and> position g' = Vector3_lerp (position g)
                  (new_Vector3 (cos angle' * planet.dist p) 0 (sin angle' * planet.dist p)) 0.05)
         \<and> CONFIG_speedFactor = 0.3
         \<and> (planet.speed q = - 0.01 \<longrightarrow>
              (let g0 = create_planet q 0;
                   g1 = animate_group False g0
               in userData.angle (userData g0) = 0
                  \<and> userData.angle (userData g1) = - 0.003
                  \<and> position g1 = Vector3_lerp (position g0)
                       (new_Vector3 (planet.dist q * cos (- 0.003)) 0
                          (planet.dist q * sin (- 0.003))) 0.05))"
proof -
  have len: "i < length (planetGroups (run_frames frames (init_scene random)))"
    using assms by (simp add: length_planetGroups_run length_planetGroups_init length_PLANETS)
  have 1: "(let s = run_frames frames (init_scene random);
              p = PLANETS ! i;
              g = planetGroups s ! i;
              g' = planetGroups (animate now normal s) ! i;
              angle' = userData.angle (userData g) + planet.speed p * CONFIG_speedFactor
          in userData.angle (userData g') = angle'
             \<and> position g' = Vector3_lerp (position g)
                  (new_Vector3 (cos angle' * planet.dist p) 0 (sin angle' * planet.dist p)) 0.05)"
    using len
    by (simp add: Let_def planetGroups_animate animate_group_normal reachable_static [OF assms])
  have 2: "CONFIG_speedFactor = 0.3" by (simp add: CONFIG_speedFactor_def)
  have 3: "planet.speed q = - 0.01 \<longrightarrow>
              (let g0 = create_planet q 0;
                   g1 = animate_group False g0
               in userData.angle (userData g0) = 0
                  \<and> userData.angle (userData g1) = - 0.003
                  \<and> position g1 = Vector3_lerp (position g0)
                       (new_Vector3 (planet.dist q * cos (- 0.003)) 0
                          (planet.dist q * sin (- 0.003))) 0.05)"
    by (simp add: Let_def animate_group_normal create_planet_static CONFIG_speedFactor_def
        mult.commute)
  from 1 2 3 show ?thesis by blast
qed

theorem open_frame_orbit_witness:
  "2 < length PLANETS \<and> planet.speed (PLANETS ! 2) = - 0.01
   \<and> userData.angle (userData (planetGroups (animate 0 normal (init_scene (\<lambda>i. 0))) ! 2)) = - 0.003
   \<and> position (planetGroups (animate 0 normal (init_scene (\<lambda>i. 0))) ! 2)
       = Vector3_lerp (new_Vector3 70 0 0)
           (new_Vector3 (cos (- 0.003) * 70) 0 (sin (- 0.003) * 70)) 0.05"
proof -
  have len: "2 < length PLANETS" by (simp add: length_PLANETS)
  have g: "planetGroups (init_scene (\<lambda>i. 0)) ! 2 = create_planet (PLANETS ! 2) 0"
    by (simp add: planetGroups_init_nth length_PLANETS)
  have p: "planet.speed (PLANETS ! 2) = - 0.01" "planet.dist (PLANETS ! 2) = 70"
    by (simp_all add: PLANETS_Earth)
  show ?thesis
    using len open_frame_orbit [OF len, of "[]" "\<lambda>i. 0" 0 "PLANETS ! 2"]
    by (simp add: Let_def g create_Earth p CONFIG_speedFactor_def)
qed

section \<open>Invariants of the animation loop\<close>

text \<open>
  C10. In every scene that the animation loop reaches from the initial scene, by frames
  in either state, every body's position has the vertical coordinate 0.
\<close>

theorem positions_stay_in_plane:
  "\<forall>g \<in> set (planetGroups (run_frames frames (init_scene random))). Vector3.y (position g) = 0"
  by (rule run_frames_y0) (rule init_scene_y0)

theorem positions_stay_in_plane_witness:
  "Vector3.y (position (planetGroups (run_frames [(0, normal), (16, merged), (33, normal)]
      (init_scene (\<lambda>i. 0))) ! 2)) = 0"
proof -
  have "planetGroups (run_frames [(0, normal), (16, merged), (33, normal)] (init_scene (\<lambda>i. 0))) ! 2
          \<in> set (planetGroups (run_frames [(0, normal), (16, merged), (33, normal)]
                (init_scene (\<lambda>i. 0))))"
    by (rule nth_mem) (simp only: length_planetGroups_run length_planetGroups_init)
  then show ?thesis
    using positions_stay_in_plane [of "[(0, normal), (16, merged), (33, normal)]" "\<lambda>i. 0"]
    by blast
qed

section \<open>Smoothing\<close>




section \<open>Stopping the camera\<close>

text \<open>
  C5. What the code does when the camera is stopped in the FIST state: after a hand with
  three closed fingers has been classified, the state is \<open>merged\<close>; the click that hides
  the camera unmounts the controller and stops its detection loop, and the state is
  still \<open>merged\<close>. No click changes the gesture state.
\<close>

theorem camera_stop_keeps_fist:
  "app.systemState (deliver (Some [fist_hand]) App_initial) = merged
   \<and> onClick (deliver (Some [fist_hand]) App_initial)
       = \<lparr>systemState = merged, cameraEnabled = False, detecting = False\<rparr>
   \<and> app.systemState (onClick s) = app.systemState s"
  by (simp add: deliver_def onClick_def cleanup_def mount_def App_initial_def onResults_fist_hand
      handleGestureChange_def Let_def)

section \<open>Textures\<close>

text \<open>
  C7. Every texel of the "Earth" texture, 512 by 512 texels, is green (40, 140, 60) where
  the noise sample at the texel exceeds 0.15 and blue (10, 40, 120) elsewhere, unless the
  cloud sample at the texel exceeds 0.5: then it is white (255, 255, 255). It is opaque in
  each case.
\<close>

theorem Earth_texture_texels:
  assumes "col < 512" "row < 512"
  shows "texel_at (createPlanetTexture (Some ctx) ''Earth'' ''#2277ff'' noise3D) col row
         = Some (let noiseVal = noise3D (real col / 512 * 3) (real row / 512 * 3) 0;
                     cloudNoise = noise3D (real col / 512 * 6) (real row / 512 * 6) 10
                 in if cloudNoise > 0.5 then (255, 255, 255, 255)
                    else if noiseVal > 0.15 then (40, 140, 60, 255)
                    else (10, 40, 120, 255))"
proof -
  let ?data = "fold (\<lambda>y data. fold (\<lambda>x data. texel_body ''Earth'' noise3D 512 y x data)
                      [0..<512] data) [0..<512] (fillRect ''#2277ff'')"
  let ?i = "(row * 512 + col) * 4"
  have t: "texel_at (createPlanetTexture (Some ctx) ''Earth'' ''#2277ff'' noise3D) col row
           = Some (?data ?i, ?data (?i + 1), ?data (?i + 2), ?data (?i + 3))"
    by (simp add: texel_at_def createPlanetTexture_def Let_def)
  have r: "?data ?i = Earth_rgb noise3D 512 row col 0"
    using Earth_fold_rgb [OF assms, of 0 noise3D "fillRect ''#2277ff''"] by simp
  have g: "?data (?i + 1) = Earth_rgb noise3D 512 row col 1"
    using Earth_fold_rgb [OF assms, of 1 noise3D "fillRect ''#2277ff''"] by simp
  have b: "?data (?i + 2) = Earth_rgb noise3D 512 row col 2"
    using Earth_fold_rgb [OF assms, of 2 noise3D "fillRect ''#2277ff''"] by simp
  have a: "?data (?i + 3) = 255"
    by (rule Earth_fold_alpha)
  show ?thesis
    unfolding t r g b a by (simp add: Earth_rgb_def Let_def)
qed

theorem Earth_texture_texels_witness:
  "(0::nat) < 512
   \<and> sample_noise 0 0 0 = 0.2 \<and> sample_noise 0 0 10 = 0.6
   \<and> texel_at (createPlanetTexture (Some CanvasRenderingContext2D) ''Earth'' ''#2277ff''
        sample_noise) 0 0 = Some (255, 255, 255, 255)
   \<and> texel_at (createPlanetTexture (Some CanvasRenderingContext2D) ''Earth'' ''#2277ff''
        (\<lambda>a b c. 0.2)) 0 0 = Some (40, 140, 60, 255)"
proof -
  have z: "(0::nat) < 512" by simp
  show ?thesis
    using Earth_texture_texels [OF z z, of CanvasRenderingContext2D sample_noise]
      Earth_texture_texels [OF z z, of CanvasRenderingContext2D "\<lambda>a b c. 0.2"]
    by (simp add: sample_noise_def)
qed

text \<open>
  C8. Each of the three texture synthesizers returns the empty texture when no drawing
  context could be created, and a canvas texture otherwise; none of them has a failing
  branch.
\<close>

theorem texture_fallback:
  "createPlanetTexture None nm colorHex noise3D = Texture
   \<and> createGlowTexture None = Texture
   \<and> createRingTexture None = Texture
   \<and> createPlanetTexture (Some ctx) nm colorHex noise3D \<noteq> Texture
   \<and> createGlowTexture (Some ctx) \<noteq> Texture
   \<and> createRingTexture (Some ctx) \<noteq> Texture"
  by (simp add: createPlanetTexture_def createGlowTexture_def createRingTexture_def Let_def)

end
